theory Spec2Isabelle
  imports Complex_Main "HOL-Library.Sublist"
begin

section \<open>The finance API adapter (src/tools/finance/api.ts)\<close>

text \<open>
  A shallow embedding of \<^verbatim>\<open>callApi\<close>. The function is asynchronous and talks to three
  collaborators: the process environment, the response cache and the network. Each of them
  is an input of the model (the record \<open>world\<close>), and everything \<^verbatim>\<open>callApi\<close> does to
  them is written to a trace of events that is returned next to the result. A thrown
  \<^verbatim>\<open>Error\<close> (a rejected promise) is the left injection of the result.
  Calls to the logger are left out: they change neither the result nor the cache nor the
  network. The one step of the logging that can throw, \<^verbatim>\<open>summarizeData\<close>, is modelled.
\<close>

subsection \<open>JavaScript values\<close>

text \<open>
  Values of parsed JSON bodies and of the returned \<^verbatim>\<open>data\<close>. Numbers are never inspected
  by the adapter; an object is the list of its own entries in enumeration order.
\<close>

datatype jsval =
    JUndefined
  | JNull
  | JBool bool
  | JNum rat
  | JStr string
  | JArr "jsval list"
  | JObj "(string \<times> jsval) list"

type_synonym obj = "(string \<times> jsval) list"

text \<open>
  A parameter value: \<^verbatim>\<open>string | number | string[] | undefined\<close>, and \<^verbatim>\<open>null\<close>, which the
  code tests for. The adapter looks at a number in two ways only, its truthiness and
  \<^verbatim>\<open>String(value)\<close>, so a number is kept as the text that \<^verbatim>\<open>String\<close> gives for it
  (\<^verbatim>\<open>4\<close>, \<^verbatim>\<open>0\<close>, \<^verbatim>\<open>1.5\<close>, \<^verbatim>\<open>1e+21\<close>, \<^verbatim>\<open>NaN\<close>, \<^verbatim>\<open>Infinity\<close>): the text determines the
  number up to the sign of zero, and the numbers that are falsy, zero of either sign and
  \<^verbatim>\<open>NaN\<close>, are those with the texts \<^verbatim>\<open>0\<close> and \<^verbatim>\<open>NaN\<close>. \<open>params\<close> is the list
  \<^verbatim>\<open>Object.entries(params)\<close>.
\<close>

datatype pval = PUndefined | PNull | PStr string | PNum string | PArr "string list"

type_synonym params = "(string \<times> pval) list"

definition param :: "params \<Rightarrow> string \<Rightarrow> pval" where
  "param ps k = (case map_of ps k of None \<Rightarrow> PUndefined | Some v \<Rightarrow> v)"

fun truthy :: "pval \<Rightarrow> bool" where
  "truthy PUndefined = False"
| "truthy PNull = False"
| "truthy (PStr s) = (s \<noteq> [])"
| "truthy (PNum n) = (n \<noteq> ''0'' \<and> n \<noteq> ''NaN'')"
| "truthy (PArr xs) = True"

text \<open>
  The decimal text of a natural number, for the HTTP status and the length of an array in
  the messages.
\<close>

definition digit_char :: "nat \<Rightarrow> char" where
  "digit_char d = ''0123456789'' ! d"

fun show_nat :: "nat \<Rightarrow> string" where
  "show_nat n =
     (if n < 10 then [digit_char n] else show_nat (n div 10) @ [digit_char (n mod 10)])"

declare show_nat.simps [simp del]

fun join :: "string \<Rightarrow> string list \<Rightarrow> string" where
  "join sep [] = []"
| "join sep [x] = x"
| "join sep (x # y # ys) = x @ sep @ join sep (y # ys)"

text \<open>\<^verbatim>\<open>String(value)\<close> on a parameter value.\<close>

fun js_String :: "pval \<Rightarrow> string" where
  "js_String PUndefined = ''undefined''"
| "js_String PNull = ''null''"
| "js_String (PStr s) = s"
| "js_String (PNum n) = n"
| "js_String (PArr xs) = join '','' xs"

text \<open>\<^verbatim>\<open>s.startsWith(p)\<close> and \<^verbatim>\<open>s.includes(p)\<close>.\<close>

fun starts_with :: "string \<Rightarrow> string \<Rightarrow> bool" where
  "starts_with s [] = True"
| "starts_with [] (p # ps) = False"
| "starts_with (c # cs) (p # ps) = (c = p \<and> starts_with cs ps)"

fun str_includes :: "string \<Rightarrow> string \<Rightarrow> bool" where
  "str_includes [] p = (p = [])"
| "str_includes (c # cs) p = (starts_with (c # cs) p \<or> str_includes cs p)"

text \<open>
  Reading a property: \<open>field\<close> is \<^verbatim>\<open>v[k]\<close> for a name \<open>k\<close> that is neither an index
  nor \<^verbatim>\<open>length\<close> (the adapter reads \<^verbatim>\<open>type\<close>, \<^verbatim>\<open>historical\<close> and its own result keys);
  \<open>get_prop\<close> adds the TypeError of reading a property of \<^verbatim>\<open>null\<close> or \<^verbatim>\<open>undefined\<close>.
\<close>

fun field :: "jsval \<Rightarrow> string \<Rightarrow> jsval" where
  "field (JObj kvs) k = (case map_of kvs k of None \<Rightarrow> JUndefined | Some v \<Rightarrow> v)"
| "field v k = JUndefined"

subsection \<open>Errors, URLs, requests and responses\<close>

text \<open>
  Every \<^verbatim>\<open>throw new Error(msg)\<close> of the source is an \<open>Error\<close> with the kind the
  specification gives it and the message of the source. \<open>TypeError\<close> is the runtime's own
  exception (\<^verbatim>\<open>Object.keys(null)\<close>, a property read on \<^verbatim>\<open>null\<close>).
\<close>

datatype error_kind =
    NoCredential
  | MissingTicker
  | UpstreamNetworkError
  | UpstreamHttpError
  | UpstreamParseError
  | UnsupportedByBackend
  | UnsupportedEndpoint

datatype error = Error error_kind string | TypeError

definition get_prop :: "jsval \<Rightarrow> string \<Rightarrow> error + jsval" where
  "get_prop v k = (if v = JNull \<or> v = JUndefined then Inl TypeError else Inr (field v k))"

text \<open>
  A \<^verbatim>\<open>URL\<close> object is kept as the string given to its constructor and the entries
  appended to its \<^verbatim>\<open>searchParams\<close>, in order; parsing and percent-encoding belong to the
  platform. A URL string is either \<^verbatim>\<open>url.toString()\<close> or a plain string.
\<close>

record url =
  href :: string
  searchParams :: "(string \<times> string) list"

datatype urlstr = UrlString url | PlainString string

record request =
  req_url :: url
  x_api_key :: "string option"

text \<open>
  What \<^verbatim>\<open>fetch\<close> gives: a rejection with a message, or a response with \<^verbatim>\<open>ok\<close>,
  \<^verbatim>\<open>status\<close>, \<^verbatim>\<open>statusText\<close> and the value of \<^verbatim>\<open>json()\<close> (\<open>None\<close> when the body does
  not parse).
\<close>

datatype fetch_outcome =
    NetworkFailure string
  | Response bool nat string "jsval option"

record ApiResponse =
  data :: jsval
  url :: urlstr

datatype event =
    CacheRead string params
  | CacheWrite string params jsval urlstr
  | Fetch request

type_synonym 'a eff = "(error + 'a) \<times> event list"

fun fetches :: "event list \<Rightarrow> request list" where
  "fetches [] = []"
| "fetches (Fetch r # es) = r # fetches es"
| "fetches (e # es) = fetches es"

fun cache_reads :: "event list \<Rightarrow> (string \<times> params) list" where
  "cache_reads [] = []"
| "cache_reads (CacheRead e p # es) = (e, p) # cache_reads es"
| "cache_reads (e # es) = cache_reads es"

fun cache_writes :: "event list \<Rightarrow> (string \<times> params \<times> jsval \<times> urlstr) list" where
  "cache_writes [] = []"
| "cache_writes (CacheWrite e p d u # es) = (e, p, d, u) # cache_writes es"
| "cache_writes (e # es) = cache_writes es"

text \<open>
  The collaborators. An environment variable is \<open>None\<close> when unset; the code tests its
  truthiness, so the empty string counts as unset. \<open>URL_parses\<close> tells whether the
  platform's \<^verbatim>\<open>URL\<close> constructor accepts a string; it throws a TypeError otherwise.
  \<open>new_Date\<close> and \<open>Date_now\<close> are the
  two clock readings of the \<^verbatim>\<open>/filings/\<close> rule in milliseconds, \<open>toISOString\<close> is the
  platform's rendering of an instant. \<open>settles_first\<close> decides which rejection
  \<^verbatim>\<open>Promise.all\<close> reports when several of its promises reject.
\<close>

record world =
  env_FINANCIAL_DATASETS_API_KEY :: "string option"
  env_FMP_API_KEY :: "string option"
  describeRequest :: "string \<Rightarrow> params \<Rightarrow> string"
  readCache :: "string \<Rightarrow> params \<Rightarrow> ApiResponse option"
  fetch :: "request \<Rightarrow> fetch_outcome"
  URL_parses :: "string \<Rightarrow> bool"
  new_Date :: int
  Date_now :: int
  toISOString :: "int \<Rightarrow> string"
  settles_first :: nat

definition env_truthy :: "string option \<Rightarrow> string option" where
  "env_truthy v = (case v of None \<Rightarrow> None | Some s \<Rightarrow> if s = [] then None else Some s)"

definition BASE_URL :: string where
  "BASE_URL = ''https://api.financialdatasets.ai''"

definition FMP_BASE_URL :: string where
  "FMP_BASE_URL = ''https://financialmodelingprep.com/stable''"

definition bind_eff :: "'a eff \<Rightarrow> ('a \<Rightarrow> 'b eff) \<Rightarrow> 'b eff" where
  "bind_eff m f =
     (case m of
        (Inl e, t) \<Rightarrow> (Inl e, t)
      | (Inr x, t) \<Rightarrow> (case f x of (r, t') \<Rightarrow> (r, t @ t')))"

subsection \<open>summarizeData (api.ts:8-17)\<close>

fun typeof :: "jsval \<Rightarrow> string" where
  "typeof JUndefined = ''undefined''"
| "typeof JNull = ''object''"
| "typeof (JBool b) = ''boolean''"
| "typeof (JNum n) = ''number''"
| "typeof (JStr s) = ''string''"
| "typeof (JArr xs) = ''object''"
| "typeof (JObj kvs) = ''object''"

fun summary_part :: "string \<times> jsval \<Rightarrow> string" where
  "summary_part (k, JArr xs) = k @ '': '' @ show_nat (length xs) @ '' records''"
| "summary_part (k, JObj kvs) = k @ '': object''"
| "summary_part (k, v) = k @ '': '' @ typeof v"

text \<open>
  The own enumerable entries of a value, as \<^verbatim>\<open>Object.keys\<close> and the object spread see
  them: the entries of an object, the indexed elements of an array or of a string, nothing
  otherwise. \<^verbatim>\<open>Object.keys\<close> throws a TypeError on \<^verbatim>\<open>null\<close> and \<^verbatim>\<open>undefined\<close>.
\<close>

fun own_entries :: "jsval \<Rightarrow> obj" where
  "own_entries (JObj kvs) = kvs"
| "own_entries (JArr xs) = zip (map show_nat [0..<length xs]) xs"
| "own_entries (JStr s) = zip (map show_nat [0..<length s]) (map (\<lambda>c. JStr [c]) s)"
| "own_entries v = []"

definition keyed :: "jsval \<Rightarrow> error + obj" where
  "keyed v = (if v = JNull \<or> v = JUndefined then Inl TypeError else Inr (own_entries v))"

definition summarizeData :: "jsval \<Rightarrow> error + string" where
  "summarizeData d =
     (case keyed d of Inl e \<Rightarrow> Inl e | Inr kvs \<Rightarrow> Inr (join '', '' (map summary_part kvs)))"

subsection \<open>The Primary backend (Financial Datasets, api.ts:45-91)\<close>

text \<open>The loop over \<^verbatim>\<open>Object.entries(params)\<close>: what one entry appends to the query.\<close>

fun param_entries :: "string \<times> pval \<Rightarrow> (string \<times> string) list" where
  "param_entries (k, PUndefined) = []"
| "param_entries (k, PNull) = []"
| "param_entries (k, PArr vs) = map (\<lambda>v. (k, v)) vs"
| "param_entries (k, v) = [(k, js_String v)]"

definition primary_url :: "string \<Rightarrow> params \<Rightarrow> url" where
  "primary_url endpoint ps =
     \<lparr>href = BASE_URL @ endpoint, searchParams = concat (map param_entries ps)\<rparr>"

text \<open>
  \<^verbatim>\<open>new URL(`${BASE_URL}${endpoint}`)\<close> comes first: the endpoint is the caller's, and the
  constructor throws when the string does not parse (with the endpoint \<^verbatim>\<open>:x\<close> the port is
  not a number). Nothing has been sent then.
\<close>

definition callPrimary ::
  "world \<Rightarrow> string \<Rightarrow> string \<Rightarrow> string \<Rightarrow> params \<Rightarrow> bool \<Rightarrow> ApiResponse eff" where
  "callPrimary w key label endpoint ps cacheable =
     (if \<not> URL_parses w (BASE_URL @ endpoint) then (Inl TypeError, [])
      else
      let u = primary_url endpoint ps;
          req = \<lparr>req_url = u, x_api_key = Some key\<rparr>
      in case fetch w req of
           NetworkFailure message \<Rightarrow>
             (Inl (Error UpstreamNetworkError
                (''API request failed for '' @ label @ '': '' @ message)), [Fetch req])
         | Response ok status statusText body \<Rightarrow>
             if \<not> ok then
               (Inl (Error UpstreamHttpError
                  (''API request failed: '' @ show_nat status @ '' '' @ statusText)),
                [Fetch req])
             else
               (case body of
                  None \<Rightarrow>
                    (Inl (Error UpstreamParseError
                       (''API request failed: invalid JSON ('' @ show_nat status @ '' '' @
                        statusText @ '')'')), [Fetch req])
                | Some d \<Rightarrow>
                    (case summarizeData d of
                       Inl e \<Rightarrow> Inl e
                     | Inr s \<Rightarrow> Inr \<lparr>data = d, url = UrlString u\<rparr>,
                     Fetch req #
                     (if cacheable then [CacheWrite endpoint ps d (UrlString u)] else []))))"

subsection \<open>The Secondary backend (FMP, api.ts:94-279)\<close>

text \<open>
  The URL that \<^verbatim>\<open>fetchFMP\<close> builds. \<open>ticker\<close> is \<^verbatim>\<open>params.ticker\<close>, which the cast
  leaves as it is; \<^verbatim>\<open>searchParams.append\<close> turns it into a string. The constructor is
  given \<open>FMP_BASE_URL\<close> followed by a sub-path that the source writes out, never a string
  of the caller's: each of these strings parses, and the constructor does not throw here.
\<close>

definition fmp_url ::
  "string \<Rightarrow> params \<Rightarrow> pval \<Rightarrow> string \<Rightarrow> (string \<times> string) list \<Rightarrow> bool \<Rightarrow> url" where
  "fmp_url apikey ps ticker subEndpoint extraParams skipSymbol =
     \<lparr>href = FMP_BASE_URL @ subEndpoint,
      searchParams =
        (if \<not> skipSymbol then [(''symbol'', js_String ticker)] else []) @
        [(''apikey'', apikey)] @
        (if truthy (param ps ''limit'') then [(''limit'', js_String (param ps ''limit''))]
         else []) @
        (if param ps ''period'' = PStr ''quarterly'' then [(''period'', ''quarter'')] else []) @
        extraParams\<rparr>"

definition fetchFMP ::
  "world \<Rightarrow> string \<Rightarrow> string \<Rightarrow> params \<Rightarrow> pval \<Rightarrow>
   string \<Rightarrow> string \<Rightarrow> (string \<times> string) list \<Rightarrow> bool \<Rightarrow> ApiResponse eff" where
  "fetchFMP w apikey label ps ticker subEndpoint subKey extraParams skipSymbol =
     (let u = fmp_url apikey ps ticker subEndpoint extraParams skipSymbol;
          req = \<lparr>req_url = u, x_api_key = None\<rparr>
      in (case fetch w req of
            NetworkFailure message \<Rightarrow>
              Inl (Error UpstreamNetworkError
                (''FMP API request failed for '' @ label @ '': '' @ message))
          | Response ok status statusText body \<Rightarrow>
              if \<not> ok then
                Inl (Error UpstreamHttpError (''FMP API request failed: '' @ show_nat status))
              else
                (case body of
                   None \<Rightarrow>
                     Inl (Error UpstreamParseError
                       (''FMP API request failed: invalid JSON ('' @ show_nat status @ '' '' @
                        statusText @ '')''))
                 | Some d \<Rightarrow> Inr \<lparr>data = JObj [(subKey, d)], url = UrlString u\<rparr>),
          [Fetch req]))"

text \<open>
  \<^verbatim>\<open>returnFMP\<close>: write the cache when asked to, summarise for the log, return. The
  \<^verbatim>\<open>/financials/\<close> rule ends with the same three steps, written out.
\<close>

definition returnFMP :: "string \<Rightarrow> params \<Rightarrow> bool \<Rightarrow> ApiResponse \<Rightarrow> ApiResponse eff" where
  "returnFMP endpoint ps cacheable result =
     (case summarizeData (data result) of Inl e \<Rightarrow> Inl e | Inr s \<Rightarrow> Inr result,
      if cacheable then [CacheWrite endpoint ps (data result) (url result)] else [])"

text \<open>
  The chain of \<^verbatim>\<open>if (...) return ...\<close> statements of the FMP branch, in two parts:
  \<open>first_match\<close> is the order of the tests, \<open>callSecondary\<close> has the bodies.
\<close>

datatype fmp_rule =
    IncomeStatements
  | BalanceSheets
  | CashFlowStatements
  | SegmentedRevenues
  | Financials
  | MetricsSnapshot
  | FinancialMetrics
  | Crypto
  | PricesSnapshot
  | Prices
  | CompanyFacts
  | AnalystEstimates
  | InsiderTrades
  | News
  | Filings
  | FilingItems
  | NotSupported

definition first_match :: "string \<Rightarrow> fmp_rule" where
  "first_match endpoint =
     (if str_includes endpoint ''income-statements'' then IncomeStatements
      else if str_includes endpoint ''balance-sheets'' then BalanceSheets
      else if str_includes endpoint ''cash-flow-statements'' then CashFlowStatements
      else if str_includes endpoint ''/segmented-revenues/'' then SegmentedRevenues
      else if endpoint = ''/financials/'' then Financials
      else if str_includes endpoint ''/financial-metrics/snapshot/'' then MetricsSnapshot
      else if str_includes endpoint ''/financial-metrics/'' then FinancialMetrics
      else if str_includes endpoint ''/crypto/'' then Crypto
      else if str_includes endpoint ''/prices/snapshot'' then PricesSnapshot
      else if endpoint = ''/prices/'' then Prices
      else if endpoint = ''/company/facts'' then CompanyFacts
      else if str_includes endpoint ''/analyst-estimates/'' then AnalystEstimates
      else if str_includes endpoint ''/insider-trades/'' then InsiderTrades
      else if endpoint = ''/news/'' then News
      else if endpoint = ''/filings/'' then Filings
      else if str_includes endpoint ''/filings/items/'' then FilingItems
      else NotSupported)"

text \<open>\<^verbatim>\<open>Array.isArray(arr) ? arr[0] : arr\<close>\<close>

fun unwrap_first :: "jsval \<Rightarrow> jsval" where
  "unwrap_first (JArr []) = JUndefined"
| "unwrap_first (JArr (x # xs)) = x"
| "unwrap_first v = v"

text \<open>\<^verbatim>\<open>(raw && typeof raw === 'object' && 'historical' in raw) ? raw.historical : raw\<close>\<close>

fun extract_historical :: "jsval \<Rightarrow> jsval" where
  "extract_historical (JObj kvs) =
     (case map_of kvs ''historical'' of None \<Rightarrow> JObj kvs | Some h \<Rightarrow> h)"
| "extract_historical v = v"

text \<open>
  \<^verbatim>\<open>filings.filter((f) => f.type === String(params.filing_type))\<close>: the callback reads
  a property of every element, which throws on a \<^verbatim>\<open>null\<close> element.
\<close>

fun filter_by_type :: "string \<Rightarrow> jsval list \<Rightarrow> error + jsval list" where
  "filter_by_type t [] = Inr []"
| "filter_by_type t (f # fs) =
     (case get_prop f ''type'' of
        Inl e \<Rightarrow> Inl e
      | Inr ty \<Rightarrow>
          (case filter_by_type t fs of
             Inl e \<Rightarrow> Inl e
           | Inr r \<Rightarrow> Inr (if ty = JStr t then f # r else r)))"

text \<open>Assignment to a property, and the object spread \<^verbatim>\<open>{ ...acc, ...v }\<close>.\<close>

fun obj_set :: "obj \<Rightarrow> string \<Rightarrow> jsval \<Rightarrow> obj" where
  "obj_set [] k v = [(k, v)]"
| "obj_set ((k', v') # kvs) k v =
     (if k' = k then (k', v) # kvs else (k', v') # obj_set kvs k v)"

definition spread :: "obj \<Rightarrow> jsval \<Rightarrow> obj" where
  "spread acc v = fold (\<lambda>(k, x) a. obj_set a k x) (own_entries v) acc"

text \<open>
  \<^verbatim>\<open>Promise.all\<close> starts from promises that are all under way. It rejects with the
  rejection that settles first; the world picks it among the rejections there are.
\<close>

fun rejections :: "(error + 'a) list \<Rightarrow> error list" where
  "rejections [] = []"
| "rejections (Inl e # rs) = e # rejections rs"
| "rejections (Inr x # rs) = rejections rs"

definition first_rejection :: "world \<Rightarrow> (error + 'a) list \<Rightarrow> error" where
  "first_rejection w rs = rejections rs ! (settles_first w mod length (rejections rs))"

definition crypto_msg :: string where
  "crypto_msg =
     ''Cryptocurrency data requires a Financial Datasets API key (FINANCIAL_DATASETS_API_KEY). '' @
     ''The FMP API adapter does not support crypto endpoints.''"

definition filing_items_msg :: string where
  "filing_items_msg =
     ''SEC filing content retrieval requires a Financial Datasets API key (FINANCIAL_DATASETS_API_KEY). '' @
     ''The FMP API only supports filing metadata via get_filings, not full-text content.''"

definition date_extras :: "params \<Rightarrow> (string \<times> string) list" where
  "date_extras ps =
     (if truthy (param ps ''start_date'') then [(''from'', js_String (param ps ''start_date''))]
      else []) @
     (if truthy (param ps ''end_date'') then [(''to'', js_String (param ps ''end_date''))]
      else [])"

definition callFinancials ::
  "world \<Rightarrow> string \<Rightarrow> string \<Rightarrow> string \<Rightarrow> params \<Rightarrow> bool \<Rightarrow> pval \<Rightarrow> ApiResponse eff" where
  "callFinancials w apikey label endpoint ps cacheable ticker =
     (let income = fetchFMP w apikey label ps ticker
                     ''/income-statement'' ''income_statements'' [] False;
          balance = fetchFMP w apikey label ps ticker
                     ''/balance-sheet-statement'' ''balance_sheets'' [] False;
          cash = fetchFMP w apikey label ps ticker
                     ''/cash-flow-statement'' ''cash_flow_statements'' [] False;
          issued = snd income @ snd balance @ snd cash
      in case (fst income, fst balance, fst cash) of
           (Inr i, Inr b, Inr c) \<Rightarrow>
             (case returnFMP endpoint ps cacheable
                     \<lparr>data = JObj [(''financials'',
                               JObj (spread (spread (spread [] (data i)) (data b)) (data c)))],
                      url = PlainString (FMP_BASE_URL @ ''/(aggregated)'')\<rparr> of
                (r, t) \<Rightarrow> (r, issued @ t))
         | _ \<Rightarrow> (Inl (first_rejection w [fst income, fst balance, fst cash]), issued))"

definition callFilings ::
  "world \<Rightarrow> string \<Rightarrow> string \<Rightarrow> string \<Rightarrow> params \<Rightarrow> bool \<Rightarrow> pval \<Rightarrow> ApiResponse eff" where
  "callFilings w apikey label endpoint ps cacheable ticker =
     (let today = take 10 (toISOString w (new_Date w));
          oneYearAgo = take 10 (toISOString w (Date_now w - 365 * 86400000));
          extra = [(''from'', oneYearAgo), (''to'', today)]
      in bind_eff
           (fetchFMP w apikey label ps ticker ''/sec-filings-search/symbol'' ''filings'' extra False)
           (\<lambda>result.
              if truthy (param ps ''filing_type'') then
                (case field (data result) ''filings'' of
                   JArr filings \<Rightarrow>
                     (case filter_by_type (js_String (param ps ''filing_type'')) filings of
                        Inl e \<Rightarrow> (Inl e, [])
                      | Inr kept \<Rightarrow>
                          returnFMP endpoint ps cacheable
                            (result\<lparr>data := JObj [(''filings'', JArr kept)]\<rparr>))
                 | _ \<Rightarrow> returnFMP endpoint ps cacheable result)
              else returnFMP endpoint ps cacheable result))"

definition callSecondary ::
  "world \<Rightarrow> string \<Rightarrow> string \<Rightarrow> string \<Rightarrow> params \<Rightarrow> bool \<Rightarrow> ApiResponse eff" where
  "callSecondary w apikey label endpoint ps cacheable =
     (let ticker = param ps ''ticker'';
          get = fetchFMP w apikey label ps ticker;
          ret = returnFMP endpoint ps cacheable;
          first_of = (\<lambda>k result.
            ret (result\<lparr>data := JObj [(k, unwrap_first (field (data result) k))]\<rparr>))
      in if \<not> truthy ticker then
           (Inl (Error MissingTicker ''Ticker is required for FMP API''), [])
         else
           (case first_match endpoint of
              IncomeStatements \<Rightarrow>
                bind_eff (get ''/income-statement'' ''income_statements'' [] False) ret
            | BalanceSheets \<Rightarrow>
                bind_eff (get ''/balance-sheet-statement'' ''balance_sheets'' [] False) ret
            | CashFlowStatements \<Rightarrow>
                bind_eff (get ''/cash-flow-statement'' ''cash_flow_statements'' [] False) ret
            | SegmentedRevenues \<Rightarrow>
                bind_eff (get ''/revenue-product-segmentation'' ''segmented_revenues'' [] False) ret
            | Financials \<Rightarrow> callFinancials w apikey label endpoint ps cacheable ticker
            | MetricsSnapshot \<Rightarrow>
                bind_eff (get ''/ratios-ttm'' ''snapshot'' [] False) (first_of ''snapshot'')
            | FinancialMetrics \<Rightarrow>
                bind_eff (get ''/ratios'' ''financial_metrics'' [] False) ret
            | Crypto \<Rightarrow> (Inl (Error UnsupportedByBackend crypto_msg), [])
            | PricesSnapshot \<Rightarrow>
                bind_eff (get ''/quote'' ''snapshot'' [] False) (first_of ''snapshot'')
            | Prices \<Rightarrow>
                bind_eff (get ''/historical-price-eod/full'' ''prices'' (date_extras ps) False)
                  (\<lambda>result. ret (result\<lparr>data :=
                     JObj [(''prices'', extract_historical (field (data result) ''prices''))]\<rparr>))
            | CompanyFacts \<Rightarrow>
                bind_eff (get ''/profile'' ''company_facts'' [] False) (first_of ''company_facts'')
            | AnalystEstimates \<Rightarrow>
                bind_eff (get ''/analyst-estimates'' ''analyst_estimates'' [] False) ret
            | InsiderTrades \<Rightarrow>
                bind_eff (get ''/insider-trading/search'' ''insider_trades'' [] False) ret
            | News \<Rightarrow>
                bind_eff
                  (get ''/news/stock'' ''news''
                     ((''symbols'', js_String ticker) # date_extras ps) True) ret
            | Filings \<Rightarrow> callFilings w apikey label endpoint ps cacheable ticker
            | FilingItems \<Rightarrow> (Inl (Error UnsupportedByBackend filing_items_msg), [])
            | NotSupported \<Rightarrow>
                (Inl (Error UnsupportedEndpoint
                   (''Endpoint '' @ endpoint @ '' not supported by FMP adapter yet'')), [])))"

subsection \<open>callApi (api.ts:24-284)\<close>

text \<open>
  \<open>cacheable\<close> is \<^verbatim>\<open>options?.cacheable\<close>, false when absent. The cache is read first,
  before the credentials are looked at; a hit is summarised for the log and returned.
\<close>

definition callApi :: "world \<Rightarrow> string \<Rightarrow> params \<Rightarrow> bool \<Rightarrow> ApiResponse eff" where
  "callApi w endpoint ps cacheable =
     (let label = describeRequest w endpoint ps;
          reads = (if cacheable then [CacheRead endpoint ps] else [])
      in case (if cacheable then readCache w endpoint ps else None) of
           Some cached \<Rightarrow>
             (case summarizeData (data cached) of Inl e \<Rightarrow> Inl e | Inr s \<Rightarrow> Inr cached,
              reads)
         | None \<Rightarrow>
             (case (case env_truthy (env_FINANCIAL_DATASETS_API_KEY w) of
                      Some key \<Rightarrow> callPrimary w key label endpoint ps cacheable
                    | None \<Rightarrow>
                        (case env_truthy (env_FMP_API_KEY w) of
                           Some key \<Rightarrow> callSecondary w key label endpoint ps cacheable
                         | None \<Rightarrow>
                             (Inl (Error NoCredential
                                (''No valid financial API key found '' @
                                 ''(requires FINANCIAL_DATASETS_API_KEY or FMP_API_KEY)'')),
                              []))) of
                (r, t) \<Rightarrow> (r, reads @ t)))"

subsection \<open>Vocabulary of the properties\<close>

text \<open>
  The parsed body of a sub-request that succeeded (the promise of \<^verbatim>\<open>fetch\<close> resolved,
  \<^verbatim>\<open>ok\<close> is true and the body parsed), \<open>None\<close> for each of the three failures.
\<close>

definition parsed_body :: "world \<Rightarrow> request \<Rightarrow> jsval option" where
  "parsed_body w req =
     (case fetch w req of
        NetworkFailure m \<Rightarrow> None
      | Response ok status statusText body \<Rightarrow> if ok then body else None)"

text \<open>A call is served from the cache when it is cacheable and the cache has an entry.\<close>

definition served_from_cache :: "world \<Rightarrow> string \<Rightarrow> params \<Rightarrow> bool \<Rightarrow> bool" where
  "served_from_cache w endpoint ps cacheable = (cacheable \<and> readCache w endpoint ps \<noteq> None)"

text \<open>The request that \<^verbatim>\<open>fetchFMP\<close> sends for a sub-path and its extra parameters.\<close>

definition fmp_request ::
  "string \<Rightarrow> params \<Rightarrow> string \<Rightarrow> (string \<times> string) list \<Rightarrow> bool \<Rightarrow> request" where
  "fmp_request apikey ps subEndpoint extraParams skipSymbol =
     \<lparr>req_url = fmp_url apikey ps (param ps ''ticker'') subEndpoint extraParams skipSymbol,
      x_api_key = None\<rparr>"

text \<open>
  A world for the concrete instances: the credentials, the cache entry (the same for every
  key) and the network are given; the clock stands at 2025-11-02T00:00:00Z. Its \<^verbatim>\<open>URL\<close>
  constructor accepts the strings that go on from the base address of the Primary backend
  with a path, all of which parse, and no other string is given to it in the instances
  but the one with the endpoint \<^verbatim>\<open>:x\<close>, which does not parse.
\<close>

definition example_clock :: "int \<Rightarrow> string" where
  "example_clock t =
     (if t = 1762041600000 then ''2025-11-02T00:00:00.000Z''
      else if t = 1730505600000 then ''2024-11-02T00:00:00.000Z''
      else ''1970-01-01T00:00:00.000Z'')"

definition example_URL_parses :: "string \<Rightarrow> bool" where
  "example_URL_parses s = starts_with s ''https://api.financialdatasets.ai/''"

definition example_world ::
  "string option \<Rightarrow> string option \<Rightarrow> ApiResponse option \<Rightarrow> (request \<Rightarrow> fetch_outcome) \<Rightarrow> world" where
  "example_world fd fmp cached net =
     \<lparr>env_FINANCIAL_DATASETS_API_KEY = fd, env_FMP_API_KEY = fmp,
      describeRequest = (\<lambda>e ps. e), readCache = (\<lambda>e ps. cached), fetch = net,
      URL_parses = example_URL_parses,
      new_Date = 1762041600000, Date_now = 1762041600000,
      toISOString = example_clock, settles_first = 0\<rparr>"


text \<open>A filings response and a request for its annual reports.\<close>

definition example_filings :: "jsval list" where
  "example_filings =
     [JObj [(''symbol'', JStr ''AAPL''), (''type'', JStr ''10-K''), (''fillingDate'', JStr ''2024-11-01'')],
      JObj [(''symbol'', JStr ''AAPL''), (''type'', JStr ''8-K''), (''fillingDate'', JStr ''2024-10-15'')],
      JObj [(''symbol'', JStr ''AAPL''), (''type'', JStr ''10-K''), (''fillingDate'', JStr ''2023-11-03'')],
      JObj [(''symbol'', JStr ''AAPL''), (''type'', JStr ''10-Q''), (''fillingDate'', JStr ''2024-08-01'')]]"

definition example_filings_params :: params where
  "example_filings_params =
     [(''ticker'', PStr ''AAPL''), (''limit'', PNum ''5''), (''filing_type'', PStr ''10-K''),
      (''start_date'', PStr ''2020-01-01''), (''end_date'', PStr ''2020-12-31'')]"

text \<open>The request that the Primary branch sends.\<close>

definition primary_request :: "string \<Rightarrow> string \<Rightarrow> params \<Rightarrow> request" where
  "primary_request key endpoint ps = \<lparr>req_url = primary_url endpoint ps, x_api_key = Some key\<rparr>"

text \<open>
  The extra parameters that the rules of the Secondary branch pass to \<^verbatim>\<open>fetchFMP\<close> have
  the names \<^verbatim>\<open>from\<close>, \<^verbatim>\<open>to\<close> and \<^verbatim>\<open>symbols\<close> only.
\<close>

definition window_keys_only :: "(string \<times> string) list \<Rightarrow> bool" where
  "window_keys_only ex = list_all (\<lambda>e. fst e = ''from'' \<or> fst e = ''to'' \<or> fst e = ''symbols'') ex"

section \<open>Properties\<close>

subsection \<open>Auxiliary facts\<close>

lemma starts_with_prefix: "starts_with s p = prefix p s"
  by (induction s p rule: starts_with.induct) auto

text \<open>\<open>str_includes\<close> is the contiguous-sublist relation of the library.\<close>

lemma str_includes_sublist: "str_includes s p = sublist p s"
  by (induction s) (auto simp: starts_with_prefix sublist_Cons_right)

lemma str_includes_longer: "str_includes s (p @ q) \<Longrightarrow> str_includes s p"
  unfolding str_includes_sublist
  by (meson sublist_append_rightI sublist_order.order.trans)

lemma summarizeData_obj [simp]:
  "summarizeData (JObj kvs) = Inr (join '', '' (map summary_part kvs))"
  by (simp add: summarizeData_def keyed_def)

lemma returnFMP_obj [simp]:
  "returnFMP endpoint ps cacheable \<lparr>data = JObj kvs, url = u\<rparr> =
     (Inr \<lparr>data = JObj kvs, url = u\<rparr>,
      if cacheable then [CacheWrite endpoint ps (JObj kvs) u] else [])"
  by (simp add: returnFMP_def)

text \<open>\<^verbatim>\<open>fetchFMP\<close> always issues its request, whatever comes back.\<close>

lemma snd_fetchFMP [simp]:
  "snd (fetchFMP w apikey label ps (param ps ''ticker'') sub k ex skip) =
     [Fetch (fmp_request apikey ps sub ex skip)]"
  by (simp add: fetchFMP_def fmp_request_def Let_def)

lemma fst_fetchFMP_Some:
  "parsed_body w (fmp_request apikey ps sub ex skip) = Some d \<Longrightarrow>
   fst (fetchFMP w apikey label ps (param ps ''ticker'') sub k ex skip) =
     Inr \<lparr>data = JObj [(k, d)], url = UrlString (req_url (fmp_request apikey ps sub ex skip))\<rparr>"
  by (auto simp: fetchFMP_def fmp_request_def parsed_body_def Let_def
      split: fetch_outcome.splits option.splits if_splits)


lemma fetchFMP_eq:
  "fetchFMP w apikey label ps (param ps ''ticker'') sub k ex skip =
     (fst (fetchFMP w apikey label ps (param ps ''ticker'') sub k ex skip),
      [Fetch (fmp_request apikey ps sub ex skip)])"
  by (metis prod.collapse snd_fetchFMP)

text \<open>The three ways through \<^verbatim>\<open>callApi\<close> once the cache has been passed, and the cache hit.\<close>

lemma callApi_secondary:
  assumes "env_truthy (env_FINANCIAL_DATASETS_API_KEY w) = None"
    and "env_truthy (env_FMP_API_KEY w) = Some key"
    and "\<not> served_from_cache w endpoint ps cacheable"
  shows "callApi w endpoint ps cacheable =
           (fst (callSecondary w key (describeRequest w endpoint ps) endpoint ps cacheable),
            (if cacheable then [CacheRead endpoint ps] else []) @
            snd (callSecondary w key (describeRequest w endpoint ps) endpoint ps cacheable))"
  using assms by (auto simp: callApi_def served_from_cache_def Let_def split: prod.splits)

lemma callApi_primary:
  assumes "env_truthy (env_FINANCIAL_DATASETS_API_KEY w) = Some key"
    and "\<not> served_from_cache w endpoint ps cacheable"
  shows "callApi w endpoint ps cacheable =
           (fst (callPrimary w key (describeRequest w endpoint ps) endpoint ps cacheable),
            (if cacheable then [CacheRead endpoint ps] else []) @
            snd (callPrimary w key (describeRequest w endpoint ps) endpoint ps cacheable))"
  using assms by (auto simp: callApi_def served_from_cache_def Let_def split: prod.splits)

lemma callApi_cached:
  assumes "cacheable" and "readCache w endpoint ps = Some cached"
  shows "callApi w endpoint ps cacheable =
           (case summarizeData (data cached) of Inl e \<Rightarrow> Inl e | Inr s \<Rightarrow> Inr cached,
            [CacheRead endpoint ps])"
  using assms by (simp add: callApi_def Let_def)

lemma callApi_no_credential:
  assumes "env_truthy (env_FINANCIAL_DATASETS_API_KEY w) = None"
    and "env_truthy (env_FMP_API_KEY w) = None"
    and "\<not> served_from_cache w endpoint ps cacheable"
  shows "callApi w endpoint ps cacheable =
           (Inl (Error NoCredential
              ''No valid financial API key found (requires FINANCIAL_DATASETS_API_KEY or FMP_API_KEY)''),
            if cacheable then [CacheRead endpoint ps] else [])"
  using assms by (auto simp: callApi_def served_from_cache_def Let_def)

lemma first_match_crypto:
  assumes "str_includes endpoint ''/crypto/''"
    and "\<not> str_includes endpoint ''income-statements''"
    and "\<not> str_includes endpoint ''balance-sheets''"
    and "\<not> str_includes endpoint ''cash-flow-statements''"
    and "\<not> str_includes endpoint ''/segmented-revenues/''"
    and "\<not> str_includes endpoint ''/financial-metrics/''"
  shows "first_match endpoint = Crypto"
proof -
  have "endpoint \<noteq> ''/financials/''"
    using assms(1) by auto
  moreover have "\<not> str_includes endpoint ''/financial-metrics/snapshot/''"
    using assms(6) str_includes_longer [of endpoint "''/financial-metrics/''" "''snapshot/''"]
    by auto
  ultimately show ?thesis
    using assms by (simp add: first_match_def)
qed


lemma callFinancials_trace:
  "fetches (snd (callFinancials w key label endpoint ps cacheable (param ps ''ticker''))) =
     [fmp_request key ps ''/income-statement'' [] False,
      fmp_request key ps ''/balance-sheet-statement'' [] False,
      fmp_request key ps ''/cash-flow-statement'' [] False]"
  by (auto simp: callFinancials_def Let_def returnFMP_def split: sum.splits prod.splits)




lemma fetches_append [simp]: "fetches (a @ b) = fetches a @ fetches b"
  by (induction a rule: fetches.induct) auto

lemma cache_writes_append [simp]: "cache_writes (a @ b) = cache_writes a @ cache_writes b"
  by (induction a rule: cache_writes.induct) auto

lemma bind_fetchFMP_Some:
  assumes "parsed_body w (fmp_request apikey ps sub ex skip) = Some d"
  shows "bind_eff (fetchFMP w apikey label ps (param ps ''ticker'') sub k ex skip) f =
           (fst (f \<lparr>data = JObj [(k, d)],
                    url = UrlString (req_url (fmp_request apikey ps sub ex skip))\<rparr>),
            Fetch (fmp_request apikey ps sub ex skip) #
            snd (f \<lparr>data = JObj [(k, d)],
                    url = UrlString (req_url (fmp_request apikey ps sub ex skip))\<rparr>))"
proof -
  have "fetchFMP w apikey label ps (param ps ''ticker'') sub k ex skip =
          (Inr \<lparr>data = JObj [(k, d)],
                url = UrlString (req_url (fmp_request apikey ps sub ex skip))\<rparr>,
           [Fetch (fmp_request apikey ps sub ex skip)])"
    using fetchFMP_eq [of w apikey label ps sub k ex skip] fst_fetchFMP_Some [OF assms]
    by simp
  then show ?thesis
    by (simp add: bind_eff_def split: prod.splits)
qed

lemma first_match_filings: "first_match ''/filings/'' = Filings"
  by (simp add: first_match_def)

lemma filter_by_type_eq:
  "filter_by_type t fs =
     (if JNull \<in> set fs \<or> JUndefined \<in> set fs then Inl TypeError
      else Inr (filter (\<lambda>f. field f ''type'' = JStr t) fs))"
  by (induction fs) (auto simp: get_prop_def)

lemma fmp_url_window:
  "filter (\<lambda>e. fst e = ''from'' \<or> fst e = ''to'')
     (searchParams (fmp_url key ps ticker sub [(''from'', a), (''to'', b)] False)) =
     [(''from'', a), (''to'', b)]"
  by (simp add: fmp_url_def)

lemma snd_callPrimary_fetches [simp]:
  "fetches (snd (callPrimary w key label endpoint ps cacheable)) =
     (if URL_parses w (BASE_URL @ endpoint) then [primary_request key endpoint ps] else [])"
  by (auto simp: callPrimary_def primary_request_def Let_def
      split: fetch_outcome.splits option.splits)

lemma fst_callPrimary_Inr:
  "fst (callPrimary w key label endpoint ps cacheable) = Inr r \<Longrightarrow>
   parsed_body w (primary_request key endpoint ps) = Some (data r) \<and>
   url r = UrlString (primary_url endpoint ps)"
  by (auto simp: callPrimary_def primary_request_def parsed_body_def Let_def
      split: fetch_outcome.splits option.splits if_splits sum.splits)

lemma summarizeData_not_null:
  "d \<noteq> JNull \<Longrightarrow> d \<noteq> JUndefined \<Longrightarrow> \<exists>s. summarizeData d = Inr s"
  by (simp add: summarizeData_def keyed_def)

lemma fst_callPrimary_body:
  assumes "URL_parses w (BASE_URL @ endpoint)"
    and "parsed_body w (primary_request key endpoint ps) = Some d"
    and "d \<noteq> JNull" and "d \<noteq> JUndefined"
  shows "fst (callPrimary w key label endpoint ps cacheable) =
           Inr \<lparr>data = d, url = UrlString (primary_url endpoint ps)\<rparr>"
  using assms summarizeData_not_null [of d]
  by (auto simp: callPrimary_def primary_request_def parsed_body_def Let_def
      split: fetch_outcome.splits option.splits if_splits)


text \<open>
  When the URL cannot be built, the Primary branch throws before anything is sent or
  written; so does the call with the endpoint \<^verbatim>\<open>:x\<close> in the example world.
\<close>

lemma callPrimary_unparsable:
  "\<not> URL_parses w (BASE_URL @ endpoint) \<Longrightarrow>
   callPrimary w key label endpoint ps cacheable = (Inl TypeError, [])"
  by (simp add: callPrimary_def)

lemma callApi_unparsable_endpoint:
  "callApi (example_world (Some ''fd-key'') None None
      (\<lambda>r. Response True 200 ''OK'' (Some (JObj [])))) '':x'' [] False =
     (Inl TypeError, [])"
  by (simp add: callApi_def callPrimary_def Let_def example_world_def env_truthy_def
      example_URL_parses_def BASE_URL_def)

lemma param_entries_key: "e \<in> set (param_entries (k, v)) \<Longrightarrow> fst e = k"
  by (cases "(k, v)" rule: param_entries.cases) auto

lemma filter_param_entries:
  "filter (\<lambda>e. fst e = k) (param_entries (k', v)) =
     (if k' = k then param_entries (k', v) else [])"
  by (cases "(k', v)" rule: param_entries.cases) (auto simp: filter_empty_conv)

lemma filter_query_entries:
  assumes "distinct (map fst ps)" and "(k, v) \<in> set ps"
  shows "filter (\<lambda>e. fst e = k) (concat (map param_entries ps)) = param_entries (k, v)"
  using assms
proof (induction ps)
  case Nil
  then show ?case by simp
next
  case (Cons p ps)
  obtain k' v' where p: "p = (k', v')" by (cases p)
  show ?case
  proof (cases "k' = k")
    case True
    with Cons.prems p have "v' = v" and "k \<notin> fst ` set ps"
      by (auto simp: image_iff)
    then have "filter (\<lambda>e. fst e = k) (concat (map param_entries ps)) = []"
      by (force simp: filter_empty_conv dest: param_entries_key)
    with True p \<open>v' = v\<close> show ?thesis
      by (simp add: filter_param_entries)
  next
    case False
    with Cons p show ?thesis
      by (auto simp: filter_param_entries)
  qed
qed


lemma snd_bind_eff:
  "snd (bind_eff m f) = snd m @ (case fst m of Inl e \<Rightarrow> [] | Inr x \<Rightarrow> snd (f x))"
  by (cases m) (auto simp: bind_eff_def split: sum.splits prod.splits)

lemma fetches_returnFMP [simp]: "fetches (snd (returnFMP endpoint ps cacheable r)) = []"
  by (simp add: returnFMP_def)

lemma bind_fetchFMP_fetches:
  assumes "\<And>x. fetches (snd (f x)) = []"
  shows "fetches (snd (bind_eff (fetchFMP w apikey label ps (param ps ''ticker'') sub k ex skip) f)) =
           [fmp_request apikey ps sub ex skip]"
  using assms by (simp add: snd_bind_eff split: sum.splits)

lemma callFilings_trace:
  "fetches (snd (callFilings w key label endpoint ps cacheable (param ps ''ticker''))) =
     [fmp_request key ps ''/sec-filings-search/symbol''
        [(''from'', take 10 (toISOString w (Date_now w - 365 * 86400000))),
         (''to'', take 10 (toISOString w (new_Date w)))] False]"
  unfolding callFilings_def Let_def
  by (rule bind_fetchFMP_fetches) (auto split: jsval.splits sum.splits)

lemma date_extras_keys: "e \<in> set (date_extras ps) \<Longrightarrow> fst e = ''from'' \<or> fst e = ''to''"
  by (auto simp: date_extras_def split: if_splits)

lemma window_keys_date_extras [simp]: "window_keys_only (date_extras ps)"
  by (auto simp: window_keys_only_def list_all_iff dest: date_extras_keys)

lemma secondary_requests:
  assumes "r \<in> set (fetches (snd (callSecondary w key label endpoint ps cacheable)))"
  shows "\<exists>sub ex skip. r = fmp_request key ps sub ex skip \<and> window_keys_only ex"
proof (cases "truthy (param ps ''ticker'')")
  case False
  with assms show ?thesis
    by (simp add: callSecondary_def Let_def)
next
  case True
  have nil: "window_keys_only []"
    by (simp add: window_keys_only_def)
  show ?thesis
  proof (cases "first_match endpoint")
    case Financials
    with assms True show ?thesis
      using nil by (auto simp: callSecondary_def Let_def callFinancials_trace)
  next
    case Filings
    with assms True have "r = fmp_request key ps ''/sec-filings-search/symbol''
        [(''from'', take 10 (toISOString w (Date_now w - 365 * 86400000))),
         (''to'', take 10 (toISOString w (new_Date w)))] False"
      by (simp add: callSecondary_def Let_def callFilings_trace)
    moreover have "window_keys_only
        [(''from'', take 10 (toISOString w (Date_now w - 365 * 86400000))),
         (''to'', take 10 (toISOString w (new_Date w)))]"
      by (simp add: window_keys_only_def)
    ultimately show ?thesis by blast
  next
    case News
    with assms True have "r = fmp_request key ps ''/news/stock''
        ((''symbols'', js_String (param ps ''ticker'')) # date_extras ps) True"
      by (simp add: callSecondary_def Let_def bind_fetchFMP_fetches)
    moreover have "window_keys_only ((''symbols'', js_String (param ps ''ticker'')) # date_extras ps)"
      using window_keys_date_extras [of ps] by (simp add: window_keys_only_def)
    ultimately show ?thesis by blast
  next
    case Prices
    with assms True have "r = fmp_request key ps ''/historical-price-eod/full'' (date_extras ps) False"
      by (simp add: callSecondary_def Let_def bind_fetchFMP_fetches)
    then show ?thesis
      using window_keys_date_extras by blast
  qed (use assms True nil in \<open>auto simp: callSecondary_def Let_def bind_fetchFMP_fetches\<close>)
qed

lemma fmp_request_period_limit:
  assumes "window_keys_only ex"
  shows "filter (\<lambda>e. fst e = ''period'') (searchParams (req_url (fmp_request key ps sub ex skip))) =
           (if param ps ''period'' = PStr ''quarterly'' then [(''period'', ''quarter'')] else []) \<and>
         filter (\<lambda>e. fst e = ''limit'') (searchParams (req_url (fmp_request key ps sub ex skip))) =
           (if truthy (param ps ''limit'') then [(''limit'', js_String (param ps ''limit''))] else [])"
proof -
  have "filter (\<lambda>e. fst e = ''period'') ex = []" and "filter (\<lambda>e. fst e = ''limit'') ex = []"
    using assms by (auto simp: window_keys_only_def list_all_iff filter_empty_conv)
  then show ?thesis
    by (simp add: fmp_request_def fmp_url_def)
qed

text \<open>
  A number goes into the query as \<^verbatim>\<open>String\<close> gives it: the limit 1e21 as \<^verbatim>\<open>1e+21\<close>, the
  limit 2.5 as \<^verbatim>\<open>2.5\<close>.
\<close>

lemma fmp_url_number_limit:
  "searchParams (fmp_url ''fmp-key'' [(''ticker'', PStr ''AAPL''), (''limit'', PNum ''1e+21'')]
      (PStr ''AAPL'') ''/ratios'' [] False) =
     [(''symbol'', ''AAPL''), (''apikey'', ''fmp-key''), (''limit'', ''1e+21'')] \<and>
   searchParams (primary_url ''/prices/'' [(''ticker'', PStr ''AAPL''), (''limit'', PNum ''2.5'')]) =
     [(''ticker'', ''AAPL''), (''limit'', ''2.5'')]"
  by (simp add: fmp_url_def primary_url_def param_def)

subsection \<open>The aggregated financials endpoint\<close>




subsection \<open>No credential\<close>

text \<open>
  C2. The claim: with neither credential set, every call fails with NoCredential after zero
  network calls, zero cache reads and zero cache writes, also when \<^verbatim>\<open>cacheable\<close> is true.
  The code reads the cache before it looks at the credentials. With \<^verbatim>\<open>cacheable\<close> true
  and an entry in the cache, the entry is returned and nothing fails; with \<^verbatim>\<open>cacheable\<close>
  true and no entry, the call fails with NoCredential after one cache read.
\<close>

theorem C2_counterexample:
  "callApi (example_world None None
       (Some \<lparr>data = JObj [(''prices'', JArr [])], url = PlainString ''u''\<rparr>)
       (\<lambda>r. NetworkFailure ''offline''))
     ''/prices/'' [(''ticker'', PStr ''AAPL'')] True =
     (Inr \<lparr>data = JObj [(''prices'', JArr [])], url = PlainString ''u''\<rparr>,
      [CacheRead ''/prices/'' [(''ticker'', PStr ''AAPL'')]]) \<and>
   cache_reads (snd (callApi (example_world None None None (\<lambda>r. NetworkFailure ''offline''))
     ''/prices/'' [(''ticker'', PStr ''AAPL'')] True)) =
     [(''/prices/'', [(''ticker'', PStr ''AAPL'')])]"
  by (simp add: callApi_def example_world_def env_truthy_def Let_def)

text \<open>
  C2, as amended. With neither credential set (unset or empty), no call touches the network
  or writes the cache; the cache is read exactly once when \<^verbatim>\<open>cacheable\<close> is true and not
  at all otherwise; and every call that is not served from the cache fails with
  NoCredential.
\<close>

theorem C2_no_credential:
  assumes "env_truthy (env_FINANCIAL_DATASETS_API_KEY w) = None"
    and "env_truthy (env_FMP_API_KEY w) = None"
  shows "fetches (snd (callApi w endpoint ps cacheable)) = [] \<and>
         cache_writes (snd (callApi w endpoint ps cacheable)) = [] \<and>
         cache_reads (snd (callApi w endpoint ps cacheable)) =
           (if cacheable then [(endpoint, ps)] else []) \<and>
         (\<not> served_from_cache w endpoint ps cacheable \<longrightarrow>
            fst (callApi w endpoint ps cacheable) =
              Inl (Error NoCredential
                ''No valid financial API key found (requires FINANCIAL_DATASETS_API_KEY or FMP_API_KEY)''))"
proof (cases "served_from_cache w endpoint ps cacheable")
  case True
  then obtain cached where "cacheable" and "readCache w endpoint ps = Some cached"
    by (auto simp: served_from_cache_def)
  then show ?thesis
    by (simp add: callApi_cached served_from_cache_def)
next
  case False
  then show ?thesis
    using assms by (simp add: callApi_no_credential)
qed

theorem C2_no_credential_witness:
  "env_truthy (env_FINANCIAL_DATASETS_API_KEY
      (example_world None (Some []) None (\<lambda>r. NetworkFailure ''offline''))) = None \<and>
   env_truthy (env_FMP_API_KEY
      (example_world None (Some []) None (\<lambda>r. NetworkFailure ''offline''))) = None \<and>
   fetches (snd (callApi (example_world None (Some []) None (\<lambda>r. NetworkFailure ''offline''))
     ''/prices/'' [(''ticker'', PStr ''AAPL'')] True)) = [] \<and>
   cache_writes (snd (callApi (example_world None (Some []) None (\<lambda>r. NetworkFailure ''offline''))
     ''/prices/'' [(''ticker'', PStr ''AAPL'')] True)) = [] \<and>
   cache_reads (snd (callApi (example_world None (Some []) None (\<lambda>r. NetworkFailure ''offline''))
     ''/prices/'' [(''ticker'', PStr ''AAPL'')] True)) =
     [(''/prices/'', [(''ticker'', PStr ''AAPL'')])] \<and>
   fst (callApi (example_world None (Some []) None (\<lambda>r. NetworkFailure ''offline''))
     ''/prices/'' [(''ticker'', PStr ''AAPL'')] True) =
     Inl (Error NoCredential
       ''No valid financial API key found (requires FINANCIAL_DATASETS_API_KEY or FMP_API_KEY)'')"
  using C2_no_credential [of "example_world None (Some []) None (\<lambda>r. NetworkFailure ''offline'')"
      "''/prices/''" "[(''ticker'', PStr ''AAPL'')]" True]
  by (simp add: example_world_def env_truthy_def served_from_cache_def)

subsection \<open>The filings endpoint\<close>

text \<open>
  C3. On the Secondary backend (only the FMP credential set, a truthy ticker, the call not
  served from the cache) a call with endpoint exactly \<^verbatim>\<open>/filings/\<close> sends one request,
  whose only \<^verbatim>\<open>from\<close> and \<^verbatim>\<open>to\<close> entries are the synthesized window, whatever the
  caller's parameters are: \<^verbatim>\<open>to\<close> is the date (the first ten characters of the ISO
  rendering) of the clock as \<^verbatim>\<open>new Date()\<close> reads it, \<^verbatim>\<open>from\<close> the date of the instant
  365 days (365 * 86400000 milliseconds) before the clock as \<^verbatim>\<open>Date.now()\<close> reads it, the
  two readings being taken one after the other.
  With \<^verbatim>\<open>filing_type\<close> set (truthy) and a raw response that is an array, whenever the call
  returns, \<^verbatim>\<open>data.filings\<close> is the array of exactly the elements whose \<^verbatim>\<open>type\<close> is the
  string of the requested filing type, in their original order; and the call does return
  when no element of the array is \<^verbatim>\<open>null\<close>.
\<close>

theorem C3_filings_window_and_filter:
  assumes "env_truthy (env_FINANCIAL_DATASETS_API_KEY w) = None"
    and "env_truthy (env_FMP_API_KEY w) = Some key"
    and "truthy (param ps ''ticker'')"
    and "\<not> served_from_cache w ''/filings/'' ps cacheable"
    and "req = fmp_request key ps ''/sec-filings-search/symbol''
                 [(''from'', take 10 (toISOString w (Date_now w - 365 * 86400000))),
                  (''to'', take 10 (toISOString w (new_Date w)))] False"
  shows "fetches (snd (callApi w ''/filings/'' ps cacheable)) = [req] \<and>
         filter (\<lambda>e. fst e = ''from'' \<or> fst e = ''to'') (searchParams (req_url req)) =
           [(''from'', take 10 (toISOString w (Date_now w - 365 * 86400000))),
            (''to'', take 10 (toISOString w (new_Date w)))] \<and>
         (truthy (param ps ''filing_type'') \<and> parsed_body w req = Some (JArr filings) \<longrightarrow>
            (\<forall>r. fst (callApi w ''/filings/'' ps cacheable) = Inr r \<longrightarrow>
               data r = JObj [(''filings'', JArr (filter
                 (\<lambda>f. field f ''type'' = JStr (js_String (param ps ''filing_type''))) filings))]) \<and>
            (JNull \<notin> set filings \<and> JUndefined \<notin> set filings \<longrightarrow>
               fst (callApi w ''/filings/'' ps cacheable) =
                 Inr \<lparr>data = JObj [(''filings'', JArr (filter
                        (\<lambda>f. field f ''type'' = JStr (js_String (param ps ''filing_type'')))
                        filings))],
                      url = UrlString (req_url req)\<rparr>))"
proof -
  let ?label = "describeRequest w ''/filings/'' ps"
  have eq: "callApi w ''/filings/'' ps cacheable =
      (fst (callFilings w key ?label ''/filings/'' ps cacheable (param ps ''ticker'')),
       (if cacheable then [CacheRead ''/filings/'' ps] else []) @
       snd (callFilings w key ?label ''/filings/'' ps cacheable (param ps ''ticker'')))"
    using assms(1-4) by (simp add: callApi_secondary callSecondary_def Let_def first_match_filings)
  have trace: "fetches (snd (callFilings w key ?label ''/filings/'' ps cacheable
                              (param ps ''ticker''))) = [req]"
    unfolding assms(5) by (rule callFilings_trace)
  have window: "filter (\<lambda>e. fst e = ''from'' \<or> fst e = ''to'') (searchParams (req_url req)) =
           [(''from'', take 10 (toISOString w (Date_now w - 365 * 86400000))),
            (''to'', take 10 (toISOString w (new_Date w)))]"
    unfolding assms(5) by (simp add: fmp_request_def fmp_url_window)
  have result: "fst (callFilings w key ?label ''/filings/'' ps cacheable (param ps ''ticker'')) =
      (if JNull \<in> set filings \<or> JUndefined \<in> set filings then Inl TypeError
       else Inr \<lparr>data = JObj [(''filings'', JArr (filter
                        (\<lambda>f. field f ''type'' = JStr (js_String (param ps ''filing_type'')))
                        filings))],
                 url = UrlString (req_url req)\<rparr>)"
    if "truthy (param ps ''filing_type'')" and "parsed_body w req = Some (JArr filings)"
    using that unfolding assms(5)
    by (simp add: callFilings_def Let_def bind_fetchFMP_Some filter_by_type_eq)
  show ?thesis
    unfolding eq using trace window result by (cases cacheable) auto
qed

theorem C3_filings_window_and_filter_witness:
  "fetches (snd (callApi
      (example_world None (Some ''fmp-key'') None
         (\<lambda>r. Response True 200 ''OK'' (Some (JArr example_filings))))
      ''/filings/'' example_filings_params False)) =
     [\<lparr>req_url = \<lparr>href = ''https://financialmodelingprep.com/stable/sec-filings-search/symbol'',
                   searchParams = [(''symbol'', ''AAPL''), (''apikey'', ''fmp-key''),
                                   (''limit'', ''5''), (''from'', ''2024-11-02''),
                                   (''to'', ''2025-11-02'')]\<rparr>,
        x_api_key = None\<rparr>] \<and>
   fst (callApi
      (example_world None (Some ''fmp-key'') None
         (\<lambda>r. Response True 200 ''OK'' (Some (JArr example_filings))))
      ''/filings/'' example_filings_params False) =
     Inr \<lparr>data = JObj [(''filings'', JArr
             [JObj [(''symbol'', JStr ''AAPL''), (''type'', JStr ''10-K''),
                    (''fillingDate'', JStr ''2024-11-01'')],
              JObj [(''symbol'', JStr ''AAPL''), (''type'', JStr ''10-K''),
                    (''fillingDate'', JStr ''2023-11-03'')]])],
          url = UrlString
            \<lparr>href = ''https://financialmodelingprep.com/stable/sec-filings-search/symbol'',
             searchParams = [(''symbol'', ''AAPL''), (''apikey'', ''fmp-key''),
                             (''limit'', ''5''), (''from'', ''2024-11-02''),
                             (''to'', ''2025-11-02'')]\<rparr>\<rparr>"
  using C3_filings_window_and_filter [of
      "example_world None (Some ''fmp-key'') None
         (\<lambda>r. Response True 200 ''OK'' (Some (JArr example_filings)))"
      "''fmp-key''" example_filings_params False _ example_filings]
  by (simp add: example_world_def env_truthy_def served_from_cache_def param_def
      parsed_body_def fmp_request_def fmp_url_def FMP_BASE_URL_def example_clock_def
      example_filings_def example_filings_params_def)

subsection \<open>Snapshot endpoints\<close>

text \<open>
  C4. On the Secondary backend (only the FMP credential set, a truthy ticker, the call not
  served from the cache), when the endpoint is taken by the \<^verbatim>\<open>/financial-metrics/snapshot/\<close>
  rule or by the \<^verbatim>\<open>/prices/snapshot\<close> rule and the sub-request succeeds with the parsed
  body \<open>raw\<close>: one request is sent (to \<^verbatim>\<open>/ratios-ttm\<close>, to \<^verbatim>\<open>/quote\<close>); if \<open>raw\<close> is an
  array with at least one element, \<^verbatim>\<open>data.snapshot\<close> is its first element; if \<open>raw\<close> is
  not an array, \<^verbatim>\<open>data.snapshot\<close> is \<open>raw\<close> itself.
\<close>

theorem C4_snapshot_first_element:
  assumes "env_truthy (env_FINANCIAL_DATASETS_API_KEY w) = None"
    and "env_truthy (env_FMP_API_KEY w) = Some key"
    and "truthy (param ps ''ticker'')"
    and "\<not> served_from_cache w endpoint ps cacheable"
    and "first_match endpoint = MetricsSnapshot \<and> sub = ''/ratios-ttm'' \<or>
         first_match endpoint = PricesSnapshot \<and> sub = ''/quote''"
    and "parsed_body w (fmp_request key ps sub [] False) = Some raw"
  shows "fetches (snd (callApi w endpoint ps cacheable)) = [fmp_request key ps sub [] False] \<and>
         (raw = JArr (x # xs) \<longrightarrow>
            fst (callApi w endpoint ps cacheable) =
              Inr \<lparr>data = JObj [(''snapshot'', x)],
                   url = UrlString (req_url (fmp_request key ps sub [] False))\<rparr>) \<and>
         ((\<forall>ys. raw \<noteq> JArr ys) \<longrightarrow>
            fst (callApi w endpoint ps cacheable) =
              Inr \<lparr>data = JObj [(''snapshot'', raw)],
                   url = UrlString (req_url (fmp_request key ps sub [] False))\<rparr>)"
proof -
  have unwrap: "\<forall>ys. raw \<noteq> JArr ys \<Longrightarrow> unwrap_first raw = raw"
    by (cases raw rule: unwrap_first.cases) auto
  show ?thesis
    using assms(5)
  proof
    assume "first_match endpoint = MetricsSnapshot \<and> sub = ''/ratios-ttm''"
    then show ?thesis
      using assms(1-4,6) unwrap
      by (auto simp: callApi_secondary callSecondary_def Let_def bind_fetchFMP_Some)
  next
    assume "first_match endpoint = PricesSnapshot \<and> sub = ''/quote''"
    then show ?thesis
      using assms(1-4,6) unwrap
      by (auto simp: callApi_secondary callSecondary_def Let_def bind_fetchFMP_Some)
  qed
qed

theorem C4_snapshot_first_element_witness:
  "first_match ''/financial-metrics/snapshot/'' = MetricsSnapshot \<and>
   first_match ''/prices/snapshot/'' = PricesSnapshot \<and>
   fst (callApi
      (example_world None (Some ''fmp-key'') None
         (\<lambda>r. Response True 200 ''OK''
                 (Some (JArr [JObj [(''peRatioTTM'', JNum 28)], JObj [(''peRatioTTM'', JNum 1)]]))))
      ''/financial-metrics/snapshot/'' [(''ticker'', PStr ''AAPL'')] False) =
     Inr \<lparr>data = JObj [(''snapshot'', JObj [(''peRatioTTM'', JNum 28)])],
          url = UrlString \<lparr>href = ''https://financialmodelingprep.com/stable/ratios-ttm'',
                  searchParams = [(''symbol'', ''AAPL''), (''apikey'', ''fmp-key'')]\<rparr>\<rparr> \<and>
   fst (callApi
      (example_world None (Some ''fmp-key'') None
         (\<lambda>r. Response True 200 ''OK'' (Some (JObj [(''price'', JNum 185)]))))
      ''/prices/snapshot/'' [(''ticker'', PStr ''AAPL'')] False) =
     Inr \<lparr>data = JObj [(''snapshot'', JObj [(''price'', JNum 185)])],
          url = UrlString \<lparr>href = ''https://financialmodelingprep.com/stable/quote'',
                  searchParams = [(''symbol'', ''AAPL''), (''apikey'', ''fmp-key'')]\<rparr>\<rparr>"
  using C4_snapshot_first_element [of
      "example_world None (Some ''fmp-key'') None
         (\<lambda>r. Response True 200 ''OK''
                 (Some (JArr [JObj [(''peRatioTTM'', JNum 28)], JObj [(''peRatioTTM'', JNum 1)]])))"
      "''fmp-key''" "[(''ticker'', PStr ''AAPL'')]" "''/financial-metrics/snapshot/''" False
      "''/ratios-ttm''"
      "JArr [JObj [(''peRatioTTM'', JNum 28)], JObj [(''peRatioTTM'', JNum 1)]]"
      "JObj [(''peRatioTTM'', JNum 28)]" "[JObj [(''peRatioTTM'', JNum 1)]]"]
    C4_snapshot_first_element [of
      "example_world None (Some ''fmp-key'') None
         (\<lambda>r. Response True 200 ''OK'' (Some (JObj [(''price'', JNum 185)])))"
      "''fmp-key''" "[(''ticker'', PStr ''AAPL'')]" "''/prices/snapshot/''" False
      "''/quote''" "JObj [(''price'', JNum 185)]"]
  by (simp add: example_world_def env_truthy_def served_from_cache_def param_def
      parsed_body_def fmp_request_def fmp_url_def FMP_BASE_URL_def first_match_def)

subsection \<open>Primary pass-through\<close>

text \<open>
  C5. On the Primary backend (the Financial Datasets credential set, the call not served
  from the cache), for every endpoint: whenever the call returns, the returned \<^verbatim>\<open>data\<close> is
  the parsed body of the response, as it is; and the call does return, with that body and
  the request URL, whenever the URL of the request can be built (the base address followed
  by the endpoint parses), the response is \<^verbatim>\<open>ok\<close> and its body parses to a value other
  than \<^verbatim>\<open>null\<close>.
\<close>

theorem C5_primary_identity:
  assumes "env_truthy (env_FINANCIAL_DATASETS_API_KEY w) = Some key"
    and "\<not> served_from_cache w endpoint ps cacheable"
  shows "(\<forall>r. fst (callApi w endpoint ps cacheable) = Inr r \<longrightarrow>
            parsed_body w (primary_request key endpoint ps) = Some (data r)) \<and>
         (\<forall>d. URL_parses w (BASE_URL @ endpoint) \<and>
              parsed_body w (primary_request key endpoint ps) = Some d \<and>
              d \<noteq> JNull \<and> d \<noteq> JUndefined \<longrightarrow>
            fst (callApi w endpoint ps cacheable) =
              Inr \<lparr>data = d, url = UrlString (primary_url endpoint ps)\<rparr>)"
  using assms fst_callPrimary_Inr fst_callPrimary_body
  by (simp add: callApi_primary)

theorem C5_primary_identity_witness:
  "fst (callApi
      (example_world (Some ''fd-key'') None None
         (\<lambda>r. Response True 200 ''OK''
                 (Some (JObj [(''income_statements'', JArr [JObj [(''revenue'', JNum 200000)]])]))))
      ''/financials/income-statements/''
      [(''ticker'', PStr ''AAPL''), (''period'', PStr ''annual''), (''limit'', PNum ''1'')] True) =
     Inr \<lparr>data = JObj [(''income_statements'', JArr [JObj [(''revenue'', JNum 200000)]])],
          url = UrlString
            \<lparr>href = ''https://api.financialdatasets.ai/financials/income-statements/'',
             searchParams = [(''ticker'', ''AAPL''), (''period'', ''annual''), (''limit'', ''1'')]\<rparr>\<rparr>"
  using C5_primary_identity [of
      "example_world (Some ''fd-key'') None None
         (\<lambda>r. Response True 200 ''OK''
                 (Some (JObj [(''income_statements'', JArr [JObj [(''revenue'', JNum 200000)]])])))"
      "''fd-key''" "''/financials/income-statements/''"
      "[(''ticker'', PStr ''AAPL''), (''period'', PStr ''annual''), (''limit'', PNum ''1'')]" True]
  by (simp add: example_world_def env_truthy_def served_from_cache_def parsed_body_def
      primary_request_def primary_url_def BASE_URL_def example_URL_parses_def)

subsection \<open>Missing ticker\<close>

text \<open>
  C6. The claim: with only the FMP credential set and \<^verbatim>\<open>params.ticker\<close> absent or empty,
  every call fails with MissingTicker. A cacheable call whose key is in the cache returns
  the entry instead: the cache is read before the ticker is looked at.
\<close>

theorem C6_counterexample:
  "callApi (example_world None (Some ''fmp-key'')
       (Some \<lparr>data = JObj [(''income_statements'', JArr [])], url = PlainString ''u''\<rparr>)
       (\<lambda>r. NetworkFailure ''offline''))
     ''/financials/income-statements/'' [(''period'', PStr ''annual'')] True =
     (Inr \<lparr>data = JObj [(''income_statements'', JArr [])], url = PlainString ''u''\<rparr>,
      [CacheRead ''/financials/income-statements/'' [(''period'', PStr ''annual'')]])"
  by (simp add: callApi_def example_world_def env_truthy_def Let_def)

text \<open>
  C6, as amended. With only the FMP credential set and \<^verbatim>\<open>params.ticker\<close> falsy (absent,
  \<^verbatim>\<open>undefined\<close>, \<^verbatim>\<open>null\<close>, the empty string or 0), every call that is not served from the
  cache fails with MissingTicker, whatever the endpoint, and issues no network request and
  no cache write.
\<close>

theorem C6_missing_ticker:
  assumes "env_truthy (env_FINANCIAL_DATASETS_API_KEY w) = None"
    and "env_truthy (env_FMP_API_KEY w) = Some key"
    and "\<not> truthy (param ps ''ticker'')"
    and "\<not> served_from_cache w endpoint ps cacheable"
  shows "fst (callApi w endpoint ps cacheable) =
           Inl (Error MissingTicker ''Ticker is required for FMP API'') \<and>
         fetches (snd (callApi w endpoint ps cacheable)) = [] \<and>
         cache_writes (snd (callApi w endpoint ps cacheable)) = []"
  using assms by (simp add: callApi_secondary callSecondary_def Let_def)

theorem C6_missing_ticker_witness:
  "env_truthy (env_FINANCIAL_DATASETS_API_KEY
      (example_world None (Some ''fmp-key'') None (\<lambda>r. NetworkFailure ''offline''))) = None \<and>
   env_truthy (env_FMP_API_KEY
      (example_world None (Some ''fmp-key'') None (\<lambda>r. NetworkFailure ''offline''))) =
     Some ''fmp-key'' \<and>
   \<not> truthy (param [(''period'', PStr ''annual''), (''ticker'', PStr [])] ''ticker'') \<and>
   fst (callApi (example_world None (Some ''fmp-key'') None (\<lambda>r. NetworkFailure ''offline''))
     ''/some/unsupported/endpoint/'' [(''period'', PStr ''annual''), (''ticker'', PStr [])] True) =
     Inl (Error MissingTicker ''Ticker is required for FMP API'') \<and>
   fetches (snd (callApi (example_world None (Some ''fmp-key'') None (\<lambda>r. NetworkFailure ''offline''))
     ''/some/unsupported/endpoint/'' [(''period'', PStr ''annual''), (''ticker'', PStr [])] True)) = [] \<and>
   cache_writes (snd (callApi (example_world None (Some ''fmp-key'') None (\<lambda>r. NetworkFailure ''offline''))
     ''/some/unsupported/endpoint/'' [(''period'', PStr ''annual''), (''ticker'', PStr [])] True)) = []"
  using C6_missing_ticker [of "example_world None (Some ''fmp-key'') None (\<lambda>r. NetworkFailure ''offline'')"
      "''fmp-key''" "[(''period'', PStr ''annual''), (''ticker'', PStr [])]"
      "''/some/unsupported/endpoint/''" True]
  by (simp add: example_world_def env_truthy_def served_from_cache_def param_def)

subsection \<open>Crypto endpoints on the Secondary backend\<close>

text \<open>
  C7. The claim: on the Secondary backend with a ticker, every endpoint that contains
  \<^verbatim>\<open>/crypto/\<close> fails with UnsupportedByBackend without a network request. The crypto test
  is the eighth of the chain: an endpoint that also contains the text of an earlier test is
  taken by that rule, and a request is sent.
\<close>

theorem C7_counterexample:
  "str_includes ''/crypto/income-statements/'' ''/crypto/'' \<and>
   callApi (example_world None (Some ''fmp-key'') None (\<lambda>r. Response True 200 ''OK'' (Some (JArr []))))
     ''/crypto/income-statements/'' [(''ticker'', PStr ''BTC-USD'')] False =
     (Inr \<lparr>data = JObj [(''income_statements'', JArr [])],
           url = UrlString \<lparr>href = ''https://financialmodelingprep.com/stable/income-statement'',
                   searchParams = [(''symbol'', ''BTC-USD''), (''apikey'', ''fmp-key'')]\<rparr>\<rparr>,
      [Fetch \<lparr>req_url = \<lparr>href = ''https://financialmodelingprep.com/stable/income-statement'',
                 searchParams = [(''symbol'', ''BTC-USD''), (''apikey'', ''fmp-key'')]\<rparr>,
              x_api_key = None\<rparr>])"
  by (simp add: callApi_def example_world_def env_truthy_def Let_def callSecondary_def
      param_def first_match_def bind_eff_def fetchFMP_def fmp_url_def FMP_BASE_URL_def)

text \<open>
  C7, as amended. On the Secondary backend (only the FMP credential set, the call not served
  from the cache) with a truthy ticker, every endpoint that contains \<^verbatim>\<open>/crypto/\<close> and
  none of \<^verbatim>\<open>income-statements\<close>, \<^verbatim>\<open>balance-sheets\<close>, \<^verbatim>\<open>cash-flow-statements\<close>,
  \<^verbatim>\<open>/segmented-revenues/\<close>, \<^verbatim>\<open>/financial-metrics/\<close> fails with UnsupportedByBackend,
  whether or not it would match a later rule such as the prices rules; no network request
  and no cache write is made, and the message names FINANCIAL_DATASETS_API_KEY.
\<close>

theorem C7_crypto_unsupported:
  assumes "env_truthy (env_FINANCIAL_DATASETS_API_KEY w) = None"
    and "env_truthy (env_FMP_API_KEY w) = Some key"
    and "truthy (param ps ''ticker'')"
    and "\<not> served_from_cache w endpoint ps cacheable"
    and "str_includes endpoint ''/crypto/''"
    and "\<not> str_includes endpoint ''income-statements''"
    and "\<not> str_includes endpoint ''balance-sheets''"
    and "\<not> str_includes endpoint ''cash-flow-statements''"
    and "\<not> str_includes endpoint ''/segmented-revenues/''"
    and "\<not> str_includes endpoint ''/financial-metrics/''"
  shows "fst (callApi w endpoint ps cacheable) = Inl (Error UnsupportedByBackend crypto_msg) \<and>
         fetches (snd (callApi w endpoint ps cacheable)) = [] \<and>
         cache_writes (snd (callApi w endpoint ps cacheable)) = [] \<and>
         str_includes crypto_msg ''FINANCIAL_DATASETS_API_KEY''"
proof -
  have "first_match endpoint = Crypto"
    using assms(5-10) by (rule first_match_crypto)
  moreover have "str_includes crypto_msg ''FINANCIAL_DATASETS_API_KEY''"
    by (simp add: crypto_msg_def)
  ultimately show ?thesis
    using assms(1-4) by (simp add: callApi_secondary callSecondary_def Let_def)
qed

theorem C7_crypto_unsupported_witness:
  "str_includes ''/crypto/prices/snapshot/'' ''/crypto/'' \<and>
   str_includes ''/crypto/prices/snapshot/'' ''/prices/snapshot'' \<and>
   truthy (param [(''ticker'', PStr ''BTC-USD'')] ''ticker'') \<and>
   fst (callApi (example_world None (Some ''fmp-key'') None (\<lambda>r. Response True 200 ''OK'' (Some (JArr []))))
     ''/crypto/prices/snapshot/'' [(''ticker'', PStr ''BTC-USD'')] False) =
     Inl (Error UnsupportedByBackend crypto_msg) \<and>
   fetches (snd (callApi (example_world None (Some ''fmp-key'') None (\<lambda>r. Response True 200 ''OK'' (Some (JArr []))))
     ''/crypto/prices/snapshot/'' [(''ticker'', PStr ''BTC-USD'')] False)) = []"
  using C7_crypto_unsupported [of
      "example_world None (Some ''fmp-key'') None (\<lambda>r. Response True 200 ''OK'' (Some (JArr [])))"
      "''fmp-key''" "[(''ticker'', PStr ''BTC-USD'')]" "''/crypto/prices/snapshot/''" False]
  by (simp add: example_world_def env_truthy_def served_from_cache_def param_def)

subsection \<open>Period and limit of a Secondary sub-request\<close>

text \<open>
  C8. The claim: every Secondary sub-request carries \<^verbatim>\<open>period=quarter\<close> when
  \<^verbatim>\<open>params.period\<close> is the string \<^verbatim>\<open>quarterly\<close>, no translated period otherwise, and the
  limit when it is present. The limit is tested for truthiness: the number 0 (the text
  \<^verbatim>\<open>0\<close>) is a limit that is present, and it is not forwarded.
\<close>

theorem C8_counterexample:
  "param [(''ticker'', PStr ''AAPL''), (''limit'', PNum ''0'')] ''limit'' = PNum ''0'' \<and>
   fetches (snd (callApi
      (example_world None (Some ''fmp-key'') None (\<lambda>r. Response True 200 ''OK'' (Some (JArr []))))
      ''/financial-metrics/'' [(''ticker'', PStr ''AAPL''), (''limit'', PNum ''0'')] False)) =
     [\<lparr>req_url = \<lparr>href = ''https://financialmodelingprep.com/stable/ratios'',
                   searchParams = [(''symbol'', ''AAPL''), (''apikey'', ''fmp-key'')]\<rparr>,
        x_api_key = None\<rparr>]"
  by (simp add: callApi_def example_world_def env_truthy_def Let_def callSecondary_def
      param_def first_match_def bind_eff_def fetchFMP_def fmp_url_def FMP_BASE_URL_def)

text \<open>
  C8, as amended. With only the FMP credential set, every request that a call sends has
  exactly the query entry \<^verbatim>\<open>period=quarter\<close> under the name \<^verbatim>\<open>period\<close> when
  \<^verbatim>\<open>params.period\<close> is the string \<^verbatim>\<open>quarterly\<close>, and no entry under that name for any
  other value or none; under the name \<^verbatim>\<open>limit\<close> it has exactly the entry with
  \<^verbatim>\<open>String(params.limit)\<close> when the limit is truthy, and no entry when it is absent, 0,
  \<^verbatim>\<open>NaN\<close> or the empty string.
\<close>

theorem C8_period_and_limit:
  assumes "env_truthy (env_FINANCIAL_DATASETS_API_KEY w) = None"
    and "env_truthy (env_FMP_API_KEY w) = Some key"
  shows "\<forall>r \<in> set (fetches (snd (callApi w endpoint ps cacheable))).
           filter (\<lambda>e. fst e = ''period'') (searchParams (req_url r)) =
             (if param ps ''period'' = PStr ''quarterly'' then [(''period'', ''quarter'')] else []) \<and>
           filter (\<lambda>e. fst e = ''limit'') (searchParams (req_url r)) =
             (if truthy (param ps ''limit'') then [(''limit'', js_String (param ps ''limit''))]
              else [])"
proof (cases "served_from_cache w endpoint ps cacheable")
  case True
  then obtain cached where "cacheable" and "readCache w endpoint ps = Some cached"
    by (auto simp: served_from_cache_def)
  then show ?thesis
    by (simp add: callApi_cached)
next
  case False
  show ?thesis
  proof
    fix r
    assume "r \<in> set (fetches (snd (callApi w endpoint ps cacheable)))"
    then have "r \<in> set (fetches (snd (callSecondary w key (describeRequest w endpoint ps)
                 endpoint ps cacheable)))"
      using assms False by (cases cacheable) (simp_all add: callApi_secondary)
    then obtain sub ex skip where "r = fmp_request key ps sub ex skip" and "window_keys_only ex"
      using secondary_requests by blast
    then show "filter (\<lambda>e. fst e = ''period'') (searchParams (req_url r)) =
             (if param ps ''period'' = PStr ''quarterly'' then [(''period'', ''quarter'')] else []) \<and>
           filter (\<lambda>e. fst e = ''limit'') (searchParams (req_url r)) =
             (if truthy (param ps ''limit'') then [(''limit'', js_String (param ps ''limit''))]
              else [])"
      using fmp_request_period_limit by blast
  qed
qed

theorem C8_period_and_limit_witness:
  "fetches (snd (callApi
      (example_world None (Some ''fmp-key'') None (\<lambda>r. Response True 200 ''OK'' (Some (JArr []))))
      ''/financials/income-statements/''
      [(''ticker'', PStr ''MSFT''), (''period'', PStr ''quarterly''), (''limit'', PNum ''4'')] False)) =
     [\<lparr>req_url = \<lparr>href = ''https://financialmodelingprep.com/stable/income-statement'',
                   searchParams = [(''symbol'', ''MSFT''), (''apikey'', ''fmp-key''),
                                   (''limit'', ''4''), (''period'', ''quarter'')]\<rparr>,
        x_api_key = None\<rparr>] \<and>
   filter (\<lambda>e. fst e = ''period'') (searchParams (req_url (hd (fetches (snd (callApi
      (example_world None (Some ''fmp-key'') None (\<lambda>r. Response True 200 ''OK'' (Some (JArr []))))
      ''/financials/income-statements/''
      [(''ticker'', PStr ''MSFT''), (''period'', PStr ''quarterly''), (''limit'', PNum ''4'')] False)))))) =
     [(''period'', ''quarter'')] \<and>
   filter (\<lambda>e. fst e = ''limit'') (searchParams (req_url (hd (fetches (snd (callApi
      (example_world None (Some ''fmp-key'') None (\<lambda>r. Response True 200 ''OK'' (Some (JArr []))))
      ''/financials/income-statements/''
      [(''ticker'', PStr ''MSFT''), (''period'', PStr ''quarterly''), (''limit'', PNum ''4'')] False)))))) =
     [(''limit'', ''4'')]"
proof -
  let ?w = "example_world None (Some ''fmp-key'') None
              (\<lambda>r. Response True 200 ''OK'' (Some (JArr [])))"
  let ?ps = "[(''ticker'', PStr ''MSFT''), (''period'', PStr ''quarterly''), (''limit'', PNum ''4'')]"
  let ?sent = "fetches (snd (callApi ?w ''/financials/income-statements/'' ?ps False))"
  have fd: "env_truthy (env_FINANCIAL_DATASETS_API_KEY ?w) = None"
    by (simp add: example_world_def env_truthy_def)
  have fmp: "env_truthy (env_FMP_API_KEY ?w) = Some ''fmp-key''"
    by (simp add: example_world_def env_truthy_def)
  have sent: "?sent =
     [\<lparr>req_url = \<lparr>href = ''https://financialmodelingprep.com/stable/income-statement'',
                   searchParams = [(''symbol'', ''MSFT''), (''apikey'', ''fmp-key''),
                                   (''limit'', ''4''), (''period'', ''quarter'')]\<rparr>,
        x_api_key = None\<rparr>]"
    by (simp add: callApi_def example_world_def env_truthy_def Let_def callSecondary_def
        param_def first_match_def bind_eff_def fetchFMP_def fmp_url_def FMP_BASE_URL_def)
  then have "hd ?sent \<in> set ?sent"
    by simp
  then have "filter (\<lambda>e. fst e = ''period'') (searchParams (req_url (hd ?sent))) =
        (if param ?ps ''period'' = PStr ''quarterly'' then [(''period'', ''quarter'')] else []) \<and>
      filter (\<lambda>e. fst e = ''limit'') (searchParams (req_url (hd ?sent))) =
        (if truthy (param ?ps ''limit'') then [(''limit'', js_String (param ?ps ''limit''))]
         else [])"
    using C8_period_and_limit [OF fd fmp, of "''/financials/income-statements/''" ?ps False]
    by blast
  then have "filter (\<lambda>e. fst e = ''period'') (searchParams (req_url (hd ?sent))) =
        [(''period'', ''quarter'')] \<and>
      filter (\<lambda>e. fst e = ''limit'') (searchParams (req_url (hd ?sent))) = [(''limit'', ''4'')]"
    by (simp add: param_def)
  with sent show ?thesis by blast
qed

subsection \<open>The query of the Primary request\<close>

text \<open>
  C9. With the Financial Datasets credential set, every request that a call sends is the
  Primary request: the key in the header, and the URL built from the base address followed
  by the endpoint, with the query that is the concatenation, in the order of the
  parameters, of what each parameter contributes. The request is sent, once, by every call
  that is not served from the cache and whose URL can be built (the base address followed
  by the endpoint parses). With distinct parameter names, the entries under the name of an
  array-valued parameter are its elements, one entry each and in order; under the name of
  a string or a number, the one entry with its string; under the name of an
  \<^verbatim>\<open>undefined\<close> or \<^verbatim>\<open>null\<close> parameter, none.
\<close>

theorem C9_primary_query:
  assumes "env_truthy (env_FINANCIAL_DATASETS_API_KEY w) = Some key"
  shows "(\<forall>r \<in> set (fetches (snd (callApi w endpoint ps cacheable))).
            r = \<lparr>req_url = primary_url endpoint ps, x_api_key = Some key\<rparr>) \<and>
         (\<not> served_from_cache w endpoint ps cacheable \<and> URL_parses w (BASE_URL @ endpoint) \<longrightarrow>
            fetches (snd (callApi w endpoint ps cacheable)) =
              [\<lparr>req_url = primary_url endpoint ps, x_api_key = Some key\<rparr>]) \<and>
         href (primary_url endpoint ps) = BASE_URL @ endpoint \<and>
         searchParams (primary_url endpoint ps) = concat (map param_entries ps) \<and>
         (distinct (map fst ps) \<longrightarrow>
            (\<forall>k vs. (k, PArr vs) \<in> set ps \<longrightarrow>
               filter (\<lambda>e. fst e = k) (searchParams (primary_url endpoint ps)) =
                 map (\<lambda>v. (k, v)) vs) \<and>
            (\<forall>k s. (k, PStr s) \<in> set ps \<longrightarrow>
               filter (\<lambda>e. fst e = k) (searchParams (primary_url endpoint ps)) = [(k, s)]) \<and>
            (\<forall>k n. (k, PNum n) \<in> set ps \<longrightarrow>
               filter (\<lambda>e. fst e = k) (searchParams (primary_url endpoint ps)) =
                 [(k, js_String (PNum n))]) \<and>
            (\<forall>k. (k, PUndefined) \<in> set ps \<or> (k, PNull) \<in> set ps \<longrightarrow>
               filter (\<lambda>e. fst e = k) (searchParams (primary_url endpoint ps)) = []))"
proof -
  have sent: "fetches (snd (callApi w endpoint ps cacheable)) =
      (if served_from_cache w endpoint ps cacheable \<or> \<not> URL_parses w (BASE_URL @ endpoint)
       then [] else [\<lparr>req_url = primary_url endpoint ps, x_api_key = Some key\<rparr>])"
  proof (cases "served_from_cache w endpoint ps cacheable")
    case True
    then obtain cached where "cacheable" and "readCache w endpoint ps = Some cached"
      by (auto simp: served_from_cache_def)
    with True show ?thesis
      by (simp add: callApi_cached)
  next
    case False
    with assms show ?thesis
      by (cases cacheable) (simp_all add: callApi_primary primary_request_def)
  qed
  have entries: "filter (\<lambda>e. fst e = k) (searchParams (primary_url endpoint ps)) =
      param_entries (k, v)" if "distinct (map fst ps)" and "(k, v) \<in> set ps" for k v
    using that by (simp add: primary_url_def filter_query_entries)
  have every: "\<forall>r \<in> set (fetches (snd (callApi w endpoint ps cacheable))).
      r = \<lparr>req_url = primary_url endpoint ps, x_api_key = Some key\<rparr>"
    unfolding sent by simp
  have once: "\<not> served_from_cache w endpoint ps cacheable \<and> URL_parses w (BASE_URL @ endpoint) \<longrightarrow>
      fetches (snd (callApi w endpoint ps cacheable)) =
        [\<lparr>req_url = primary_url endpoint ps, x_api_key = Some key\<rparr>]"
    unfolding sent by simp
  have base: "href (primary_url endpoint ps) = BASE_URL @ endpoint"
    by (simp add: primary_url_def)
  have query: "searchParams (primary_url endpoint ps) = concat (map param_entries ps)"
    by (simp add: primary_url_def)
  have by_name: "distinct (map fst ps) \<longrightarrow>
      (\<forall>k vs. (k, PArr vs) \<in> set ps \<longrightarrow>
         filter (\<lambda>e. fst e = k) (searchParams (primary_url endpoint ps)) =
           map (\<lambda>v. (k, v)) vs) \<and>
      (\<forall>k s. (k, PStr s) \<in> set ps \<longrightarrow>
         filter (\<lambda>e. fst e = k) (searchParams (primary_url endpoint ps)) = [(k, s)]) \<and>
      (\<forall>k n. (k, PNum n) \<in> set ps \<longrightarrow>
         filter (\<lambda>e. fst e = k) (searchParams (primary_url endpoint ps)) =
           [(k, js_String (PNum n))]) \<and>
      (\<forall>k. (k, PUndefined) \<in> set ps \<or> (k, PNull) \<in> set ps \<longrightarrow>
         filter (\<lambda>e. fst e = k) (searchParams (primary_url endpoint ps)) = [])"
    using entries by (auto simp: primary_url_def)
  show ?thesis
    by (rule conjI [OF every conjI [OF once conjI [OF base conjI [OF query by_name]]]])
qed

theorem C9_primary_query_witness:
  "fetches (snd (callApi
      (example_world (Some ''fd-key'') None None (\<lambda>r. Response True 200 ''OK'' (Some (JObj []))))
      ''/filings/items/''
      [(''ticker'', PStr ''AAPL''), (''accession_number'', PUndefined),
       (''item'', PArr [''Item-1'', ''Item-7'']), (''limit'', PNum ''10'')] True)) =
     [\<lparr>req_url = \<lparr>href = ''https://api.financialdatasets.ai/filings/items/'',
                   searchParams = [(''ticker'', ''AAPL''), (''item'', ''Item-1''),
                                   (''item'', ''Item-7''), (''limit'', ''10'')]\<rparr>,
        x_api_key = Some ''fd-key''\<rparr>] \<and>
   filter (\<lambda>e. fst e = ''item'')
     (searchParams (primary_url ''/filings/items/''
        [(''ticker'', PStr ''AAPL''), (''accession_number'', PUndefined),
         (''item'', PArr [''Item-1'', ''Item-7'']), (''limit'', PNum ''10'')])) =
     [(''item'', ''Item-1''), (''item'', ''Item-7'')]"
proof -
  let ?w = "example_world (Some ''fd-key'') None None
              (\<lambda>r. Response True 200 ''OK'' (Some (JObj [])))"
  let ?ps = "[(''ticker'', PStr ''AAPL''), (''accession_number'', PUndefined),
              (''item'', PArr [''Item-1'', ''Item-7'']), (''limit'', PNum ''10'')]"
  have fd: "env_truthy (env_FINANCIAL_DATASETS_API_KEY ?w) = Some ''fd-key''"
    by (simp add: example_world_def env_truthy_def)
  have miss: "\<not> served_from_cache ?w ''/filings/items/'' ?ps True"
    by (simp add: served_from_cache_def example_world_def)
  have parses: "URL_parses ?w (BASE_URL @ ''/filings/items/'')"
    by (simp add: example_world_def example_URL_parses_def BASE_URL_def)
  have names: "distinct (map fst ?ps)"
    by simp
  have array: "(''item'', PArr [''Item-1'', ''Item-7'']) \<in> set ?ps"
    by simp
  note fact = C9_primary_query [OF fd, of "''/filings/items/''" ?ps True]
  note sent = fact [THEN conjunct2, THEN conjunct1, rule_format, OF conjI [OF miss parses]]
  note entries = fact [THEN conjunct2, THEN conjunct2, THEN conjunct2, THEN conjunct2,
      rule_format, OF names, THEN conjunct1, rule_format, OF array]
  from sent entries show ?thesis
    by (simp add: primary_url_def BASE_URL_def)
qed

subsection \<open>Both credentials set\<close>



end
